theory Spec2Isabelle
  imports Main "HOL-Library.Word" "HOL-Library.Monad_Syntax"
begin

unbundle bit_operations_syntax

section \<open>The ARM64 code generator (src/jit/codegenarm64.cpp)\<close>

text \<open>
  The code generator does not write bytes itself: every function of the file calls the
  instruction emitter, the unwind-table builder, the register set and the GC tracker.
  The model records each such call, in call order, as an \<open>event\<close>; a code-generator
  function returns the list of events it produced. A failed \<open>assert\<close> or
  \<open>noway_assert\<close> aborts the compilation of the method: the model returns \<open>None\<close>.

  Types: \<open>ssize_t\<close> and \<open>int\<close> values that are only compared, negated and passed on
  are \<open>int\<close>; the casts of the source are written out where they occur. The
  \<open>unsigned\<close> arithmetic of the frame layout is done on \<open>32 word\<close>, register masks
  (\<open>regMaskTP\<close>) are \<open>64 word\<close>.
\<close>

subsection \<open>Registers, instructions, operand attributes\<close>

type_synonym regNumber = nat
type_synonym regMaskTP = "64 word"

text \<open>
  Modelled from the spec: the register numbering of the target (registerarm64.h is not
  part of the sources given). General-purpose registers are numbered from 0 (x0) to 31
  (zr), with fp = 29 and lr = 30; the floating-point/SIMD registers v0..v31 follow as
  32..63; the stack pointer and the "no register" marker lie above every real register.
\<close>

definition REG_R0 :: regNumber where "REG_R0 = 0"
definition REG_R1 :: regNumber where "REG_R1 = 1"
definition REG_R2 :: regNumber where "REG_R2 = 2"
definition REG_R3 :: regNumber where "REG_R3 = 3"
definition REG_R9 :: regNumber where "REG_R9 = 9"
definition REG_IP0 :: regNumber where "REG_IP0 = 16"
definition REG_R19 :: regNumber where "REG_R19 = 19"
definition REG_R28 :: regNumber where "REG_R28 = 28"
definition REG_FP :: regNumber where "REG_FP = 29"
definition REG_LR :: regNumber where "REG_LR = 30"
definition REG_ZR :: regNumber where "REG_ZR = 31"
definition REG_FP_FIRST :: regNumber where "REG_FP_FIRST = 32"
definition REG_FP_LAST :: regNumber where "REG_FP_LAST = 63"
definition REG_SPBASE :: regNumber where "REG_SPBASE = 64"
definition REG_NA :: regNumber where "REG_NA = 66"

definition REG_NEXT :: "regNumber \<Rightarrow> regNumber" where
  "REG_NEXT reg = reg + 1"

definition genIsValidFloatReg :: "regNumber \<Rightarrow> bool" where
  "genIsValidFloatReg reg = (REG_FP_FIRST \<le> reg \<and> reg \<le> REG_FP_LAST)"

datatype instruction =
    INS_add | INS_sub | INS_adds | INS_subs | INS_ands
  | INS_strb | INS_strh | INS_str
  | INS_ldrsb | INS_ldrsh | INS_ldrsw | INS_ldrb | INS_ldrh | INS_ldr
  | INS_stp | INS_ldp
  | INS_mov | INS_movz | INS_movn | INS_movk | INS_tst | INS_adrp
  | INS_cmp | INS_sdiv | INS_udiv | INS_mul | INS_and | INS_orr | INS_eor
  | INS_fadd | INS_fsub | INS_fmul | INS_fdiv
  | INS_ldaxr | INS_stlxr | INS_cbnz | INS_bne
  | INS_swpal | INS_staddl | INS_ldaddal | INS_casal
  | INS_brk

datatype insOpts = INS_OPTS_NONE | INS_OPTS_PRE_INDEX | INS_OPTS_POST_INDEX | INS_OPTS_LSL

datatype insFlags = INS_FLAGS_DONT_CARE | INS_FLAGS_SET | INS_FLAGS_NOT_SET

text \<open>
  \<open>emitAttr\<close>: the operand size in bytes together with the GC and relocation flag
  bits. \<open>EA_SIZE\<close> keeps the size and drops every flag; \<open>EA_IS_RELOC\<close> tests the two
  relocation flags.
\<close>

record emitAttr =
  ea_bytes :: nat
  ea_gcref :: bool
  ea_byref :: bool
  ea_dsp_reloc :: bool
  ea_cns_reloc :: bool

definition EA_4BYTE :: emitAttr where
  "EA_4BYTE = \<lparr>ea_bytes = 4, ea_gcref = False, ea_byref = False,
                ea_dsp_reloc = False, ea_cns_reloc = False\<rparr>"

definition EA_8BYTE :: emitAttr where
  "EA_8BYTE = \<lparr>ea_bytes = 8, ea_gcref = False, ea_byref = False,
                ea_dsp_reloc = False, ea_cns_reloc = False\<rparr>"

definition EA_PTRSIZE :: emitAttr where
  "EA_PTRSIZE = EA_8BYTE"

definition EA_SIZE :: "emitAttr \<Rightarrow> emitAttr" where
  "EA_SIZE attr = \<lparr>ea_bytes = ea_bytes attr, ea_gcref = False, ea_byref = False,
                    ea_dsp_reloc = False, ea_cns_reloc = False\<rparr>"

definition EA_IS_RELOC :: "emitAttr \<Rightarrow> bool" where
  "EA_IS_RELOC attr = (ea_dsp_reloc attr \<or> ea_cns_reloc attr)"

subsection \<open>The calls made to the collaborators\<close>

datatype var_types = TYP_INT | TYP_LONG | TYP_FLOAT | TYP_DOUBLE | TYP_REF | TYP_BYREF

datatype genTreeOps = GT_ADD | GT_SUB | GT_MUL | GT_DIV | GT_UDIV | GT_AND | GT_OR | GT_XOR
  | GT_XCHG | GT_XADD | GT_CMPXCHG

datatype emitJumpKind = EJ_jmp | EJ_eq | EJ_ne | EJ_vs

datatype SpecialCodeKind = SCK_DIV_BY_ZERO | SCK_ARITH_EXCPN

type_synonym label = nat

datatype event =
    emitIns_R_I instruction emitAttr regNumber int
  | emitIns_R_I_I instruction emitAttr regNumber "16 word" nat insOpts
  | emitIns_R_AI instruction emitAttr regNumber int
  | emitIns_R_R instruction emitAttr regNumber regNumber
  | emitIns_R_R_I instruction emitAttr regNumber regNumber int insOpts
  | emitIns_R_R_R instruction emitAttr regNumber regNumber regNumber
  | emitIns_R_R_R_I instruction emitAttr regNumber regNumber regNumber int insOpts
  | emitIns_J instruction label
  | emitIns_J_R instruction emitAttr label regNumber
  | emitInsTernary instruction emitAttr regNumber
  | instGen_MemoryBarrier
  | inst_JMP emitJumpKind label
  | genJumpToThrowHlpBlk emitJumpKind SpecialCodeKind
  | genDefineTempLabel label
  | unwindPadding
  | unwindAllocStack "32 word"
  | unwindSaveRegPairPreindexed regNumber regNumber int
  | unwindSaveRegPair regNumber regNumber int
  | unwindSaveNext
  | unwindSaveRegPreindexed regNumber int
  | unwindSaveReg regNumber int
  | verifyRegUsed regNumber
  | gcMarkRegPtrVal regNumber var_types
  | gcMarkRegSetNpt regMaskTP
  | genConsumeOperands
  | genConsumeAddress regNumber
  | genConsumeRegs regNumber
  | genProduceReg regNumber

text \<open>The events that put an instruction into the instruction stream.\<close>

fun isInstruction :: "event \<Rightarrow> bool" where
  "isInstruction (emitIns_R_I _ _ _ _) = True"
| "isInstruction (emitIns_R_I_I _ _ _ _ _ _) = True"
| "isInstruction (emitIns_R_AI _ _ _ _) = True"
| "isInstruction (emitIns_R_R _ _ _ _) = True"
| "isInstruction (emitIns_R_R_I _ _ _ _ _ _) = True"
| "isInstruction (emitIns_R_R_R _ _ _ _ _) = True"
| "isInstruction (emitIns_R_R_R_I _ _ _ _ _ _ _) = True"
| "isInstruction (emitIns_J _ _) = True"
| "isInstruction (emitIns_J_R _ _ _ _) = True"
| "isInstruction (emitInsTernary _ _ _) = True"
| "isInstruction instGen_MemoryBarrier = True"
| "isInstruction (inst_JMP _ _) = True"
| "isInstruction (genJumpToThrowHlpBlk _ _) = True"
| "isInstruction _ = False"

text \<open>
  The immediate-legality tests of the emitter (emitarm64.cpp) are not part of the
  sources given: the code generator takes them as parameters. \<open>compReloc\<close> is the
  compiler option read by \<open>instGen_Set_Reg_To_Imm\<close>.
\<close>

record emitter =
  emitIns_valid_imm_for_add :: "int \<Rightarrow> emitAttr \<Rightarrow> bool"
  emitIns_valid_imm_for_ldst_offset :: "int \<Rightarrow> emitAttr \<Rightarrow> bool"
  emitIns_valid_imm_for_mov :: "int \<Rightarrow> emitAttr \<Rightarrow> bool"
  compReloc :: bool

definition jit_assert :: "bool \<Rightarrow> unit option" where
  "jit_assert b = (if b then Some () else None)"

subsection \<open>Constant materialization: \<open>instGen_Set_Reg_To_Imm\<close>\<close>

text \<open>\<open>uint16_t(imm >> i)\<close>: arithmetic shift of the \<open>ssize_t\<close>, then truncation.\<close>

definition halfword :: "int \<Rightarrow> nat \<Rightarrow> 16 word" where
  "halfword imm i = word_of_int (drop_bit i imm)"

text \<open>
  The first loop, \<open>for (int i = (size == EA_8BYTE) ? 48 : 16; i >= 0; i -= 16)\<close>,
  which counts the 0xffff halfwords up and the 0x0000 halfwords down.
\<close>

function preferMovn_loop :: "int \<Rightarrow> int \<Rightarrow> int \<Rightarrow> int" where
  "preferMovn_loop imm i preferMovn =
     (if i \<ge> 0 then
        preferMovn_loop imm (i - 16)
          (if halfword imm (nat i) = 0xffff then preferMovn + 1
           else if halfword imm (nat i) = 0x0000 then preferMovn - 1
           else preferMovn)
      else preferMovn)"
  by pat_completeness auto
termination
  by (relation "measure (\<lambda>(imm, i, p). nat (i + 1))") auto

declare preferMovn_loop.simps [simp del]

text \<open>
  The second loop, \<open>for (unsigned i = 0; i < bits; i += 16)\<close>: one instruction for
  each halfword that differs from \<open>skipVal\<close>; the first one is the movz or movn chosen,
  every later one is a movk. The loop state is the current \<open>ins\<close> and the events so far.
\<close>

function movk_loop ::
  "emitAttr \<Rightarrow> regNumber \<Rightarrow> int \<Rightarrow> 16 word \<Rightarrow> nat \<Rightarrow> nat \<Rightarrow> instruction \<Rightarrow> event list
     \<Rightarrow> instruction \<times> event list" where
  "movk_loop sz reg imm skipVal bits i ins evs =
     (if i < bits then
        (let imm16 = halfword imm i in
         if imm16 \<noteq> skipVal then
           movk_loop sz reg imm skipVal bits (i + 16) INS_movk
             (evs @ [emitIns_R_I_I ins sz reg (if ins = INS_movn then NOT imm16 else imm16)
                       i INS_OPTS_LSL])
         else movk_loop sz reg imm skipVal bits (i + 16) ins evs)
      else (ins, evs))"
  by pat_completeness auto
termination
  by (relation "measure (\<lambda>(sz, reg, imm, skipVal, bits, i, ins, evs). bits - i)") auto

declare movk_loop.simps [simp del]

text \<open>
  Modelled from the spec: \<open>instGen_Set_Reg_To_Zero\<close> (instr.cpp, not part of the sources
  given) sets a register to zero with a single instruction.
\<close>

definition instGen_Set_Reg_To_Zero :: "emitAttr \<Rightarrow> regNumber \<Rightarrow> insFlags \<Rightarrow> event list" where
  "instGen_Set_Reg_To_Zero sz reg flags = [emitIns_R_I INS_mov sz reg 0]"

definition instGen_Set_Reg_To_Imm ::
  "emitter \<Rightarrow> emitAttr \<Rightarrow> regNumber \<Rightarrow> int \<Rightarrow> insFlags \<Rightarrow> event list option" where
  "instGen_Set_Reg_To_Imm em sz0 reg imm flags = do {
     jit_assert (\<not> genIsValidFloatReg reg);
     let sz = (if \<not> compReloc em then EA_SIZE sz0 else sz0);
     evs \<leftarrow>
       (if EA_IS_RELOC sz then Some [emitIns_R_AI INS_adrp sz reg imm]
        else if imm = 0 then Some (instGen_Set_Reg_To_Zero sz reg flags)
        else do {
          evs \<leftarrow>
            (if emitIns_valid_imm_for_mov em imm sz then
               Some [emitIns_R_I INS_mov sz reg imm]
             else do {
               let preferMovn = preferMovn_loop imm (if sz = EA_8BYTE then 48 else 16) 0;
               let ins = (if preferMovn > 0 then INS_movn else INS_movz);
               let skipVal = (if preferMovn > 0 then 0xffff else 0);
               let bits = (if sz = EA_8BYTE then 64 else 32);
               let (ins', evs) = movk_loop sz reg imm skipVal bits 0 ins [];
               jit_assert (ins' = INS_movk);
               Some evs
             });
          Some (evs @ (if flags = INS_FLAGS_SET then [emitIns_R_I INS_tst sz reg 0] else []))
        });
     Some (evs @ [verifyRegUsed reg])
   }"

subsection \<open>Immediate operands: \<open>genInstrWithConstant\<close>\<close>

text \<open>
  The \<open>switch (ins)\<close>: the instruction and immediate to emit (add and sub swap on a
  negative immediate) and whether the immediate fits; the stores also assert that the
  temporary is not the stored register; any other instruction is an assertion failure.
\<close>

definition genInstrWithConstant_switch ::
  "emitter \<Rightarrow> instruction \<Rightarrow> emitAttr \<Rightarrow> regNumber \<Rightarrow> int \<Rightarrow> regNumber
     \<Rightarrow> (instruction \<times> int \<times> bool) option" where
  "genInstrWithConstant_switch em ins sz reg1 imm tmpReg =
     (if ins = INS_add \<or> ins = INS_sub then
        (let imm' = (if imm < 0 then - imm else imm);
             ins' = (if imm < 0 then (if ins = INS_add then INS_sub else INS_add) else ins)
         in Some (ins', imm', emitIns_valid_imm_for_add em imm' sz))
      else if ins = INS_strb \<or> ins = INS_strh \<or> ins = INS_str then do {
        jit_assert (tmpReg \<noteq> reg1);
        Some (ins, imm, emitIns_valid_imm_for_ldst_offset em imm sz)
      }
      else if ins = INS_ldrsb \<or> ins = INS_ldrsh \<or> ins = INS_ldrsw
            \<or> ins = INS_ldrb \<or> ins = INS_ldrh \<or> ins = INS_ldr then
        Some (ins, imm, emitIns_valid_imm_for_ldst_offset em imm sz)
      else None)"

text \<open>The result is the events and the returned \<open>bool\<close>.\<close>

definition genInstrWithConstant ::
  "emitter \<Rightarrow> instruction \<Rightarrow> emitAttr \<Rightarrow> regNumber \<Rightarrow> regNumber \<Rightarrow> int \<Rightarrow> regNumber \<Rightarrow> bool
     \<Rightarrow> (bool \<times> event list) option" where
  "genInstrWithConstant em ins0 attr reg1 reg2 imm0 tmpReg inUnwindRegion = do {
     let sz = EA_SIZE attr;
     jit_assert (tmpReg \<noteq> reg2);
     (ins, imm, immFitsInIns) \<leftarrow> genInstrWithConstant_switch em ins0 sz reg1 imm0 tmpReg;
     evs \<leftarrow>
       (if immFitsInIns then
          Some [emitIns_R_R_I ins attr reg1 reg2 imm INS_OPTS_NONE]
        else do {
          jit_assert (tmpReg \<noteq> REG_NA);
          evs1 \<leftarrow> instGen_Set_Reg_To_Imm em sz tmpReg imm INS_FLAGS_DONT_CARE;
          Some (evs1 @ [verifyRegUsed tmpReg]
                @ (if inUnwindRegion then [unwindPadding] else [])
                @ [emitIns_R_R_R ins attr reg1 reg2 tmpReg])
        });
     Some (immFitsInIns, evs)
   }"

subsection \<open>Stack-pointer adjustment: \<open>genStackPointerAdjustment\<close>\<close>

text \<open>
  \<open>pTmpRegIsZero\<close> is a \<open>bool*\<close>: \<open>None\<close> is the null pointer, \<open>Some b\<close> a pointer
  to a flag holding \<open>b\<close>; the function returns the flag as it leaves it. The unwind
  amount is \<open>(unsigned)abs(spDelta)\<close>, asserted to convert back to the same \<open>ssize_t\<close>.
\<close>

definition genStackPointerAdjustment ::
  "emitter \<Rightarrow> int \<Rightarrow> regNumber \<Rightarrow> bool option \<Rightarrow> bool \<Rightarrow> (bool option \<times> event list) option" where
  "genStackPointerAdjustment em spDelta tmpReg pTmpRegIsZero reportUnwindData = do {
     (r, evs1) \<leftarrow> genInstrWithConstant em INS_add EA_PTRSIZE REG_SPBASE REG_SPBASE spDelta
                     tmpReg True;
     let pTmpRegIsZero' = (if r then (if pTmpRegIsZero \<noteq> None then Some False else pTmpRegIsZero)
                           else pTmpRegIsZero);
     evs2 \<leftarrow>
       (if reportUnwindData then do {
          let spDeltaAbs = \<bar>spDelta\<bar>;
          let unwindSpDelta = (word_of_int spDeltaAbs :: 32 word);
          jit_assert (uint unwindSpDelta = spDeltaAbs);
          Some [unwindAllocStack unwindSpDelta]
        }
        else Some []);
     Some (pTmpRegIsZero', evs1 @ evs2)
   }"

subsection \<open>Register save and restore primitives\<close>

text \<open>\<open>spDelta % 16\<close> is the C remainder (truncating); it is zero exactly when 16 divides.\<close>

definition c_rem :: "int \<Rightarrow> int \<Rightarrow> int" where
  "c_rem a b = sgn a * (\<bar>a\<bar> mod \<bar>b\<bar>)"


definition genPrologSaveReg ::
  "emitter \<Rightarrow> regNumber \<Rightarrow> int \<Rightarrow> int \<Rightarrow> regNumber \<Rightarrow> bool option
     \<Rightarrow> (bool option \<times> event list) option" where
  "genPrologSaveReg em reg1 spOffset spDelta tmpReg pTmpRegIsZero = do {
     jit_assert (spOffset \<ge> 0);
     jit_assert (spDelta \<le> 0);
     jit_assert (c_rem spDelta 16 = 0);
     (needToSaveRegs, p', evs1) \<leftarrow>
       (if spDelta \<noteq> 0 then
          if spOffset = 0 \<and> spDelta \<ge> -256 then
            Some (False, pTmpRegIsZero,
                  [emitIns_R_R_I INS_str EA_PTRSIZE reg1 REG_SPBASE spDelta INS_OPTS_PRE_INDEX,
                   unwindSaveRegPreindexed reg1 spDelta])
          else do {
            (p', evs) \<leftarrow> genStackPointerAdjustment em spDelta tmpReg pTmpRegIsZero True;
            Some (True, p', evs)
          }
        else Some (True, pTmpRegIsZero, []));
     let evs2 =
       (if needToSaveRegs then
          [emitIns_R_R_I INS_str EA_PTRSIZE reg1 REG_SPBASE spOffset INS_OPTS_NONE,
           unwindSaveReg reg1 spOffset]
        else []);
     Some (p', evs1 @ evs2)
   }"

definition genEpilogRestoreRegPair ::
  "emitter \<Rightarrow> regNumber \<Rightarrow> regNumber \<Rightarrow> int \<Rightarrow> int \<Rightarrow> bool \<Rightarrow> regNumber \<Rightarrow> bool option
     \<Rightarrow> (bool option \<times> event list) option" where
  "genEpilogRestoreRegPair em reg1 reg2 spOffset spDelta useSaveNextPair tmpReg pTmpRegIsZero = do {
     jit_assert (spOffset \<ge> 0);
     jit_assert (spDelta \<ge> 0);
     jit_assert (c_rem spDelta 16 = 0);
     jit_assert (genIsValidFloatReg reg1 = genIsValidFloatReg reg2);
     if spDelta \<noteq> 0 then do {
       jit_assert (\<not> useSaveNextPair);
       if spOffset = 0 \<and> spDelta \<le> 504 then
         Some (pTmpRegIsZero,
               [emitIns_R_R_R_I INS_ldp EA_PTRSIZE reg1 reg2 REG_SPBASE spDelta INS_OPTS_POST_INDEX,
                unwindSaveRegPairPreindexed reg1 reg2 (- spDelta)])
       else do {
         (p', evs) \<leftarrow> genStackPointerAdjustment em spDelta tmpReg pTmpRegIsZero True;
         Some (p', [emitIns_R_R_R_I INS_ldp EA_PTRSIZE reg1 reg2 REG_SPBASE spOffset INS_OPTS_NONE,
                    unwindSaveRegPair reg1 reg2 spOffset] @ evs)
       }
     }
     else
       Some (pTmpRegIsZero,
             [emitIns_R_R_R_I INS_ldp EA_PTRSIZE reg1 reg2 REG_SPBASE spOffset INS_OPTS_NONE,
              if useSaveNextPair then unwindSaveNext else unwindSaveRegPair reg1 reg2 spOffset])
   }"

definition genEpilogRestoreReg ::
  "emitter \<Rightarrow> regNumber \<Rightarrow> int \<Rightarrow> int \<Rightarrow> regNumber \<Rightarrow> bool option
     \<Rightarrow> (bool option \<times> event list) option" where
  "genEpilogRestoreReg em reg1 spOffset spDelta tmpReg pTmpRegIsZero = do {
     jit_assert (spOffset \<ge> 0);
     jit_assert (spDelta \<ge> 0);
     jit_assert (c_rem spDelta 16 = 0);
     if spDelta \<noteq> 0 then
       if spOffset = 0 \<and> spDelta \<le> 255 then
         Some (pTmpRegIsZero,
               [emitIns_R_R_I INS_ldr EA_PTRSIZE reg1 REG_SPBASE spDelta INS_OPTS_POST_INDEX,
                unwindSaveRegPreindexed reg1 (- spDelta)])
       else do {
         (p', evs) \<leftarrow> genStackPointerAdjustment em spDelta tmpReg pTmpRegIsZero True;
         Some (p', [emitIns_R_R_I INS_ldr EA_PTRSIZE reg1 REG_SPBASE spOffset INS_OPTS_NONE,
                    unwindSaveReg reg1 spOffset] @ evs)
       }
     else
       Some (pTmpRegIsZero,
             [emitIns_R_R_I INS_ldr EA_PTRSIZE reg1 REG_SPBASE spOffset INS_OPTS_NONE,
              unwindSaveReg reg1 spOffset])
   }"

subsection \<open>A concrete emitter for evaluation\<close>

text \<open>
  Modelled from the spec: the encodable-immediate ranges of the target, which the
  emitter (emitarm64.cpp, not part of the sources given) decides. They are used only
  where the theory evaluates the code generator on a concrete input.
  \<^item> add/sub: a 12-bit unsigned magnitude, or one shifted left by 12;
  \<^item> load/store offset: a 9-bit signed byte offset, or a 12-bit unsigned offset scaled
    by the operand size;
  \<^item> mov: a value with at most one non-zero halfword (movz), the complement of such a
    value (movn), or a bitmask immediate: an element of 2, 4, 8, 16, 32 or 64 bits,
    repeated over the operand, that is a rotation of a non-empty run of ones shorter
    than the element (its bits change exactly twice around the element).
\<close>

definition arm64_valid_imm_for_add :: "int \<Rightarrow> emitAttr \<Rightarrow> bool" where
  "arm64_valid_imm_for_add imm sz =
     (\<bar>imm\<bar> \<le> 0xfff \<or> (\<bar>imm\<bar> mod 0x1000 = 0 \<and> \<bar>imm\<bar> div 0x1000 \<le> 0xfff))"

definition arm64_valid_imm_for_ldst_offset :: "int \<Rightarrow> emitAttr \<Rightarrow> bool" where
  "arm64_valid_imm_for_ldst_offset imm sz =
     ((-256 \<le> imm \<and> imm \<le> 255)
      \<or> (0 \<le> imm \<and> imm mod int (ea_bytes sz) = 0 \<and> imm div int (ea_bytes sz) \<le> 0xfff))"

definition canEncodeHalfwordImm :: "nat \<Rightarrow> nat \<Rightarrow> bool" where
  "canEncodeHalfwordImm bits v =
     list_ex (\<lambda>k. v = (v div 2 ^ (16 * k)) mod 2 ^ 16 * 2 ^ (16 * k)) [0..<bits div 16]"

fun popcount :: "nat \<Rightarrow> nat" where
  "popcount n = (if n = 0 then 0 else n mod 2 + popcount (n div 2))"

declare popcount.simps [simp del]

definition canEncodeBitMaskImm :: "nat \<Rightarrow> nat \<Rightarrow> bool" where
  "canEncodeBitMaskImm bits v =
     list_ex (\<lambda>e. e \<le> bits \<and> v mod 2 ^ (bits - e) = v div 2 ^ e
                 \<and> (let x = v mod 2 ^ e
                    in popcount (x XOR (x div 2 + (x mod 2) * 2 ^ (e - 1))) = 2))
       [2, 4, 8, 16, 32, 64]"

definition arm64_valid_imm_for_mov :: "int \<Rightarrow> emitAttr \<Rightarrow> bool" where
  "arm64_valid_imm_for_mov imm sz =
     (let bits = (if ea_bytes sz = 8 then 64 else 32);
          v = nat (imm mod 2 ^ bits);
          notv = 2 ^ bits - 1 - v
      in canEncodeHalfwordImm bits v \<or> canEncodeHalfwordImm bits notv
         \<or> canEncodeBitMaskImm bits v)"

definition arm64_emitter :: emitter where
  "arm64_emitter = \<lparr>emitIns_valid_imm_for_add = arm64_valid_imm_for_add,
                     emitIns_valid_imm_for_ldst_offset = arm64_valid_imm_for_ldst_offset,
                     emitIns_valid_imm_for_mov = arm64_valid_imm_for_mov,
                     compReloc = False\<rparr>"

subsection \<open>Classifying events\<close>


subsection \<open>The instruction count the specification asks of \<open>instGen_Set_Reg_To_Imm\<close>\<close>



subsection \<open>Register masks\<close>

text \<open>
  Modelled from the spec: the register-mask constants and mask primitives of the target
  (target.h and compiler.hpp lie outside this file). A mask has bit \<open>r\<close> set for register
  number \<open>r\<close>; the callee-saved registers are x19..x28 and v8..v15; \<open>genCountBits\<close>
  counts the set bits, \<open>genFindLowestBit\<close> isolates the lowest set bit and
  \<open>genRegNumFromMask\<close> gives the register number of a one-bit mask.
\<close>

definition RBM_NONE :: regMaskTP where "RBM_NONE = 0"
definition RBM_FP :: regMaskTP where "RBM_FP = 0x20000000"
definition RBM_LR :: regMaskTP where "RBM_LR = 0x40000000"
definition RBM_CALLEE_SAVED :: regMaskTP where "RBM_CALLEE_SAVED = 0xFF001FF80000"

definition genCountBits :: "regMaskTP \<Rightarrow> 32 word" where
  "genCountBits regMask = of_nat (length (filter (bit regMask) [0..<64]))"

definition genFindLowestBit :: "regMaskTP \<Rightarrow> regMaskTP" where
  "genFindLowestBit regMask = regMask AND (- regMask)"

definition genRegNumFromMask :: "regMaskTP \<Rightarrow> regNumber" where
  "genRegNumFromMask regMask = length (takeWhile (\<lambda>n. \<not> bit regMask n) [0..<64])"

subsection \<open>Frame layout of a funclet: \<open>genCaptureFuncletPrologEpilogInfo\<close>\<close>

text \<open>
  Modelled from the spec: the frame constants of the target (target.h) and \<open>roundUp\<close>
  (the rounding to a multiple of a power of two, from the JIT's utilities): registers
  are 8 bytes, the stack is 16-byte aligned, 8 integer argument registers.
\<close>

definition REGSIZE_BYTES :: "32 word" where "REGSIZE_BYTES = 8"
definition STACK_ALIGN :: "32 word" where "STACK_ALIGN = 16"
definition MAX_REG_ARG :: "32 word" where "MAX_REG_ARG = 8"

definition roundUp :: "32 word \<Rightarrow> 32 word \<Rightarrow> 32 word" where
  "roundUp sz mult = (sz + (mult - 1)) AND NOT (mult - 1)"

text \<open>
  What the function reads from the compiler and from the code generator.
  \<open>lvaPSPSym\<close> is \<open>None\<close> for \<open>BAD_VAR_NUM\<close>. The \<open>unsigned\<close> and \<open>int\<close> values
  of the function are 32-bit words; an \<open>int\<close> is read with \<open>sint\<close>.
\<close>

record Compiler =
  ehAnyFunclets :: bool
  lvaDoneFrameLayout_is_FINAL :: bool
  lvaPSPSym :: "nat option"
  compIsVarArgs :: bool
  lvaOutgoingArgSpaceSize :: "32 word"
  lvaGetCallerSPRelativeOffset :: "nat \<Rightarrow> 32 word"

record CodeGen =
  isFramePointerUsed :: bool
  genCallerSPtoFPdelta :: "32 word"
  rsMaskCalleeSaved :: regMaskTP
  genSaveFpLrWithAllCalleeSavedRegisters :: bool

record FuncletFrameInfoDsc =
  fiSaveRegs :: regMaskTP
  fiFunction_CallerSP_to_FP_delta :: "32 word"
  fiSP_to_FPLR_save_delta :: "32 word"
  fiSP_to_PSP_slot_delta :: "32 word"
  fiSP_to_CalleeSave_delta :: "32 word"
  fiCallerSP_to_PSP_slot_delta :: "32 word"
  fiFrameType :: int
  fiSpDelta1 :: "32 word"
  fiSpDelta2 :: "32 word"

text \<open>The sizes the function computes before it chooses a frame type.\<close>

definition saveRegsPlusPSPSize :: "Compiler \<Rightarrow> CodeGen \<Rightarrow> 32 word" where
  "saveRegsPlusPSPSize compiler cg =
     (let PSPSize = (if lvaPSPSym compiler \<noteq> None then REGSIZE_BYTES else 0);
          saveRegsCount = genCountBits (rsMaskCalleeSaved cg);
          saveRegsPlusPSPSize = saveRegsCount * REGSIZE_BYTES + PSPSize
      in if compIsVarArgs compiler then saveRegsPlusPSPSize + MAX_REG_ARG * REGSIZE_BYTES
         else saveRegsPlusPSPSize)"

definition saveRegsPlusPSPSizeAligned :: "Compiler \<Rightarrow> CodeGen \<Rightarrow> 32 word" where
  "saveRegsPlusPSPSizeAligned compiler cg = roundUp (saveRegsPlusPSPSize compiler cg) STACK_ALIGN"

definition outgoingArgSpaceAligned :: "Compiler \<Rightarrow> 32 word" where
  "outgoingArgSpaceAligned compiler = roundUp (lvaOutgoingArgSpaceSize compiler) STACK_ALIGN"

definition maxFuncletFrameSizeAligned :: "Compiler \<Rightarrow> CodeGen \<Rightarrow> 32 word" where
  "maxFuncletFrameSizeAligned compiler cg =
     saveRegsPlusPSPSizeAligned compiler cg + outgoingArgSpaceAligned compiler"

definition funcletFrameSize :: "Compiler \<Rightarrow> CodeGen \<Rightarrow> 32 word" where
  "funcletFrameSize compiler cg = saveRegsPlusPSPSize compiler cg + lvaOutgoingArgSpaceSize compiler"

definition funcletFrameSizeAligned :: "Compiler \<Rightarrow> CodeGen \<Rightarrow> 32 word" where
  "funcletFrameSizeAligned compiler cg = roundUp (funcletFrameSize compiler cg) STACK_ALIGN"

text \<open>
  The branch on the frame size and on \<open>genSaveFpLrWithAllCalleeSavedRegisters\<close>. The
  result is \<open>SP_to_FPLR_save_delta\<close>, \<open>SP_to_PSP_slot_delta\<close>,
  \<open>CallerSP_to_PSP_slot_delta\<close>, the frame type and the two SP deltas.
\<close>

definition funcletFrameShape ::
  "Compiler \<Rightarrow> CodeGen \<Rightarrow> (32 word \<times> 32 word \<times> 32 word \<times> int \<times> 32 word \<times> 32 word) option" where
  "funcletFrameShape compiler cg =
     (let funcletFrameAlignmentPad = funcletFrameSizeAligned compiler cg - funcletFrameSize compiler cg
      in
      if maxFuncletFrameSizeAligned compiler cg \<le> 512 then do {
        let (SP_to_FPLR_save_delta, SP_to_PSP_slot_delta, CallerSP_to_PSP_slot_delta, frameType) =
          (if genSaveFpLrWithAllCalleeSavedRegisters cg then
             (let d = funcletFrameSizeAligned compiler cg - 2 * REGSIZE_BYTES;
                  d' = (if compIsVarArgs compiler then d - MAX_REG_ARG * REGSIZE_BYTES else d)
              in (d', lvaOutgoingArgSpaceSize compiler + funcletFrameAlignmentPad,
                  - saveRegsPlusPSPSize compiler cg, 4))
           else
             (let d = lvaOutgoingArgSpaceSize compiler
              in (d, d + 2 * REGSIZE_BYTES + funcletFrameAlignmentPad,
                  - (saveRegsPlusPSPSize compiler cg - 2 * REGSIZE_BYTES),
                  if lvaOutgoingArgSpaceSize compiler = 0 then 1 else 2)));
        let fiSpDelta1 = - funcletFrameSizeAligned compiler cg;
        let fiSpDelta2 = 0;
        jit_assert (fiSpDelta1 + fiSpDelta2 = - funcletFrameSizeAligned compiler cg);
        Some (SP_to_FPLR_save_delta, SP_to_PSP_slot_delta, CallerSP_to_PSP_slot_delta, frameType,
              fiSpDelta1, fiSpDelta2)
      }
      else do {
        let saveRegsPlusPSPAlignmentPad =
              saveRegsPlusPSPSizeAligned compiler cg - saveRegsPlusPSPSize compiler cg;
        jit_assert (saveRegsPlusPSPAlignmentPad = 0 \<or> saveRegsPlusPSPAlignmentPad = REGSIZE_BYTES);
        let (SP_to_FPLR_save_delta, SP_to_PSP_slot_delta, CallerSP_to_PSP_slot_delta, frameType) =
          (if genSaveFpLrWithAllCalleeSavedRegisters cg then
             (let d = funcletFrameSizeAligned compiler cg - 2 * REGSIZE_BYTES;
                  d' = (if compIsVarArgs compiler then d - MAX_REG_ARG * REGSIZE_BYTES else d)
              in (d', lvaOutgoingArgSpaceSize compiler + funcletFrameAlignmentPad
                        + saveRegsPlusPSPAlignmentPad,
                  - saveRegsPlusPSPSize compiler cg, 5))
           else
             (let d = outgoingArgSpaceAligned compiler
              in (d, d + 2 * REGSIZE_BYTES + saveRegsPlusPSPAlignmentPad,
                  - (saveRegsPlusPSPSizeAligned compiler cg - 2 * REGSIZE_BYTES
                       - saveRegsPlusPSPAlignmentPad),
                  3)));
        let fiSpDelta1 = - saveRegsPlusPSPSizeAligned compiler cg;
        let fiSpDelta2 = - outgoingArgSpaceAligned compiler;
        jit_assert (fiSpDelta1 + fiSpDelta2 = - maxFuncletFrameSizeAligned compiler cg);
        Some (SP_to_FPLR_save_delta, SP_to_PSP_slot_delta, CallerSP_to_PSP_slot_delta, frameType,
              fiSpDelta1, fiSpDelta2)
      })"

text \<open>
  The function itself: \<open>genFuncletInfo\<close> goes in and comes out; a method without
  funclets leaves it alone. The assertions of the closing \<open>DEBUG\<close> block are included.
\<close>

definition genCaptureFuncletPrologEpilogInfo ::
  "Compiler \<Rightarrow> CodeGen \<Rightarrow> FuncletFrameInfoDsc \<Rightarrow> FuncletFrameInfoDsc option" where
  "genCaptureFuncletPrologEpilogInfo compiler cg genFuncletInfo =
     (if \<not> ehAnyFunclets compiler then Some genFuncletInfo
      else do {
        jit_assert (isFramePointerUsed cg);
        jit_assert (lvaDoneFrameLayout_is_FINAL compiler);
        let rsMaskSaveRegs = rsMaskCalleeSaved cg;
        jit_assert (rsMaskSaveRegs AND RBM_LR \<noteq> 0);
        jit_assert (rsMaskSaveRegs AND RBM_FP \<noteq> 0);
        jit_assert (lvaOutgoingArgSpaceSize compiler mod REGSIZE_BYTES = 0);
        jit_assert (maxFuncletFrameSizeAligned compiler cg mod STACK_ALIGN = 0);
        jit_assert (funcletFrameSizeAligned compiler cg \<le> maxFuncletFrameSizeAligned compiler cg);
        let funcletFrameAlignmentPad = funcletFrameSizeAligned compiler cg - funcletFrameSize compiler cg;
        jit_assert (funcletFrameAlignmentPad = 0 \<or> funcletFrameAlignmentPad = REGSIZE_BYTES);
        (SP_to_FPLR_save_delta, SP_to_PSP_slot_delta, CallerSP_to_PSP_slot_delta, frameType,
           spDelta1, spDelta2) \<leftarrow> funcletFrameShape compiler cg;
        let info = genFuncletInfo
              \<lparr>fiFunction_CallerSP_to_FP_delta := genCallerSPtoFPdelta cg,
               fiFrameType := frameType,
               fiSpDelta1 := spDelta1,
               fiSpDelta2 := spDelta2,
               fiSaveRegs := rsMaskSaveRegs,
               fiSP_to_FPLR_save_delta := SP_to_FPLR_save_delta,
               fiSP_to_PSP_slot_delta := SP_to_PSP_slot_delta,
               fiSP_to_CalleeSave_delta := SP_to_PSP_slot_delta + REGSIZE_BYTES,
               fiCallerSP_to_PSP_slot_delta := CallerSP_to_PSP_slot_delta\<rparr>;
        jit_assert (0 \<le> sint (fiSP_to_FPLR_save_delta info));
        jit_assert (0 \<le> sint (fiSP_to_PSP_slot_delta info));
        jit_assert (0 \<le> sint (fiSP_to_CalleeSave_delta info));
        jit_assert (sint (fiCallerSP_to_PSP_slot_delta info) \<le> 0);
        jit_assert (case lvaPSPSym compiler of
                      None \<Rightarrow> True
                    | Some v \<Rightarrow> fiCallerSP_to_PSP_slot_delta info = lvaGetCallerSPRelativeOffset compiler v);
        Some info
      })"

text \<open>
  Inputs for evaluation: a funclet of a method that is not variadic, has a PSP slot and
  saves x19, fp and lr, with the outgoing-argument size, the caller-SP-relative offset
  of the PSP slot in the main function, and the FP/LR save mode left open.
\<close>

definition funclet_compiler :: "32 word \<Rightarrow> 32 word \<Rightarrow> Compiler" where
  "funclet_compiler outgoing pspOffset =
     \<lparr>ehAnyFunclets = True, lvaDoneFrameLayout_is_FINAL = True, lvaPSPSym = Some 0,
      compIsVarArgs = False, lvaOutgoingArgSpaceSize = outgoing,
      lvaGetCallerSPRelativeOffset = (\<lambda>_. pspOffset)\<rparr>"

definition funclet_codegen :: "bool \<Rightarrow> CodeGen" where
  "funclet_codegen saveFpLrWithAll =
     \<lparr>isFramePointerUsed = True, genCallerSPtoFPdelta = - 16,
      rsMaskCalleeSaved = 0x60080000,
      genSaveFpLrWithAllCalleeSavedRegisters = saveFpLrWithAll\<rparr>"

definition funclet_info0 :: FuncletFrameInfoDsc where
  "funclet_info0 =
     \<lparr>fiSaveRegs = 0, fiFunction_CallerSP_to_FP_delta = 0, fiSP_to_FPLR_save_delta = 0,
      fiSP_to_PSP_slot_delta = 0, fiSP_to_CalleeSave_delta = 0,
      fiCallerSP_to_PSP_slot_delta = 0, fiFrameType = 0, fiSpDelta1 = 0, fiSpDelta2 = 0\<rparr>"

(*DEFS-END*)

section \<open>Properties\<close>

subsection \<open>Helper lemmas\<close>

lemma jit_assert_bind [simp]: "(jit_assert b \<bind> f) = (if b then f () else None)"
  by (simp add: jit_assert_def)

lemma c_rem_16 [simp]: "(c_rem a 16 = 0) = (16 dvd a)"
  by (auto simp: c_rem_def sgn_if zmod_eq_0_iff dvd_def abs_if) presburger+




lemma gSPA_instr_nonempty:
  "genStackPointerAdjustment em spDelta tmpReg p r = Some (p', evs) \<Longrightarrow> filter isInstruction evs \<noteq> []"
  by (auto simp: genStackPointerAdjustment_def genInstrWithConstant_def Let_def
      split: if_splits prod.splits bind_splits)

lemmas reg_defs = REG_R0_def REG_R1_def REG_R2_def REG_R3_def REG_R9_def REG_IP0_def REG_R19_def
  REG_R28_def REG_FP_def REG_LR_def REG_ZR_def REG_FP_FIRST_def REG_FP_LAST_def REG_SPBASE_def
  REG_NA_def REG_NEXT_def genIsValidFloatReg_def

lemmas ea_defs = EA_4BYTE_def EA_8BYTE_def EA_PTRSIZE_def EA_SIZE_def EA_IS_RELOC_def

lemmas arm64_defs = arm64_emitter_def arm64_valid_imm_for_add_def
  arm64_valid_imm_for_ldst_offset_def



lemma gSPA_arm64_256:
  "genStackPointerAdjustment arm64_emitter 256 REG_IP0 None True =
     Some (None, [emitIns_R_R_I INS_add EA_PTRSIZE REG_SPBASE REG_SPBASE 256 INS_OPTS_NONE,
                  unwindAllocStack 256])"
  by (simp add: genStackPointerAdjustment_def genInstrWithConstant_def
      genInstrWithConstant_switch_def reg_defs arm64_defs)














lemma EA_4BYTE_neq_8 [simp]: "EA_4BYTE \<noteq> EA_8BYTE"
  by (simp add: EA_4BYTE_def EA_8BYTE_def)




lemma filter_length_mono:
  "(\<And>x. x \<in> set xs \<Longrightarrow> P x \<Longrightarrow> Q x) \<Longrightarrow> length (filter P xs) \<le> length (filter Q xs)"
  by (induction xs) auto

lemma callee_saved_count:
  "length (filter (bit (RBM_CALLEE_SAVED OR RBM_FP OR RBM_LR)) [0..<64]) = 20"
  by (simp add: RBM_CALLEE_SAVED_def RBM_FP_def RBM_LR_def upt_rec bit_iff_odd_drop_bit
      drop_bit_eq_div)

lemma countBits_le_20:
  assumes "m AND (RBM_CALLEE_SAVED OR RBM_FP OR RBM_LR) = m"
  shows "length (filter (bit m) [0..<64]) \<le> 20"
proof -
  have "bit m n \<Longrightarrow> bit (RBM_CALLEE_SAVED OR RBM_FP OR RBM_LR) n" for n
    by (subst (asm) assms[symmetric]) (simp add: bit_and_iff)
  then have "length (filter (bit m) [0..<64])
               \<le> length (filter (bit (RBM_CALLEE_SAVED OR RBM_FP OR RBM_LR)) [0..<64])"
    by (intro filter_length_mono) auto
  then show ?thesis by (simp add: callee_saved_count)
qed

lemma countBits_ge_2:
  assumes "m AND RBM_LR \<noteq> 0" and "m AND RBM_FP \<noteq> 0"
  shows "2 \<le> length (filter (bit m) [0..<64])"
proof -
  have lr: "RBM_LR = 2 ^ 30" and fp: "RBM_FP = 2 ^ 29"
    by (simp_all add: RBM_LR_def RBM_FP_def)
  have b: "bit m 30" "bit m 29"
    using assms unfolding lr fp and_exp_eq_0_iff_not_bit by blast+
  have "[0..<64] = [0..<29] @ 29 # 30 # [31..<64]"
    by (simp add: upt_rec)
  then have "length (filter (bit m) [0..<64]) =
               length (filter (bit m) [0..<29]) + 2 + length (filter (bit m) [31..<64])"
    using b by simp
  then show ?thesis by simp
qed

lemma unat_genCountBits: "unat (genCountBits m) = length (filter (bit m) [0..<64])"
proof -
  have "length (filter (bit m) [0..<64]) \<le> 64"
    using length_filter_le[of "bit m" "[0..<64]"] by simp
  then show ?thesis
    by (simp add: genCountBits_def unat_of_nat)
qed

lemma saveRegsPlusPSPSize_bounds:
  assumes "rsMaskCalleeSaved cg AND (RBM_CALLEE_SAVED OR RBM_FP OR RBM_LR) = rsMaskCalleeSaved cg"
      and "rsMaskCalleeSaved cg AND RBM_LR \<noteq> 0" and "rsMaskCalleeSaved cg AND RBM_FP \<noteq> 0"
  shows "16 \<le> unat (saveRegsPlusPSPSize compiler cg) \<and> unat (saveRegsPlusPSPSize compiler cg) \<le> 232"
proof -
  let ?n = "genCountBits (rsMaskCalleeSaved cg)"
  have n: "2 \<le> unat ?n" "unat ?n \<le> 20"
    using countBits_ge_2[OF assms(2,3)] countBits_le_20[OF assms(1)]
    by (simp_all add: unat_genCountBits)
  have m: "unat (?n * 8) = unat ?n * 8"
    using n by (simp add: unat_word_ariths)
  show ?thesis
    using n m
    by (auto simp: saveRegsPlusPSPSize_def Let_def REGSIZE_BYTES_def MAX_REG_ARG_def
        unat_word_ariths)
qed


lemma capture_Some:
  assumes "genCaptureFuncletPrologEpilogInfo compiler cg i = Some r" and "ehAnyFunclets compiler"
  shows "\<exists>a b c t d1 d2. funcletFrameShape compiler cg = Some (a, b, c, t, d1, d2)
           \<and> fiSpDelta1 r = d1 \<and> fiSpDelta2 r = d2 \<and> fiCallerSP_to_PSP_slot_delta r = c
           \<and> fiFrameType r = t
           \<and> rsMaskCalleeSaved cg AND RBM_LR \<noteq> 0 \<and> rsMaskCalleeSaved cg AND RBM_FP \<noteq> 0"
  using assms
  by (auto simp: genCaptureFuncletPrologEpilogInfo_def Let_def
      split: if_splits bind_splits prod.splits)

lemma shape_Some:
  assumes "funcletFrameShape compiler cg = Some (a, b, c, t, d1, d2)"
  shows "c = (if genSaveFpLrWithAllCalleeSavedRegisters cg then - saveRegsPlusPSPSize compiler cg
              else - (saveRegsPlusPSPSize compiler cg - 16))"
    and "maxFuncletFrameSizeAligned compiler cg \<le> 512 \<Longrightarrow>
           d1 = - funcletFrameSizeAligned compiler cg \<and> d2 = 0"
    and "\<not> maxFuncletFrameSizeAligned compiler cg \<le> 512 \<Longrightarrow>
           d1 = - saveRegsPlusPSPSizeAligned compiler cg \<and> d2 = - outgoingArgSpaceAligned compiler"
    and "(t = 1 \<or> t = 2 \<or> t = 4) = (maxFuncletFrameSizeAligned compiler cg \<le> 512)"
    and "(t = 4 \<or> t = 5) = genSaveFpLrWithAllCalleeSavedRegisters cg"
    and "t \<in> {1, 2, 3, 4, 5}"
  using assms
  by (auto simp: funcletFrameShape_def Let_def REGSIZE_BYTES_def
      split: if_splits bind_splits)

lemma roundUp16_nonzero:
  assumes "16 \<le> unat x" and "unat x \<le> 232"
  shows "roundUp x STACK_ALIGN \<noteq> 0" and "unat (roundUp x STACK_ALIGN) \<le> 247"
proof -
  let ?y = "x + 15"
  have y: "unat ?y = unat x + 15" using assms by (simp add: unat_word_ariths)
  have le: "?y AND NOT 15 \<le> ?y" by (rule word_and_le2)
  then show "unat (roundUp x STACK_ALIGN) \<le> 247"
    using y assms by (simp add: roundUp_def STACK_ALIGN_def word_le_nat_alt)
  show "roundUp x STACK_ALIGN \<noteq> 0"
  proof
    assume z: "roundUp x STACK_ALIGN = 0"
    have "?y = ?y AND (15 OR NOT 15)" by simp
    also have "\<dots> = (?y AND 15) OR (?y AND NOT 15)" by (rule bit.conj_disj_distrib)
    finally have "?y = (?y AND 15) OR (?y AND NOT 15)" .
    with z have "?y AND 15 = ?y" by (simp add: roundUp_def STACK_ALIGN_def)
    moreover have "?y AND 15 \<le> 15" by (rule word_and_le1)
    ultimately have "?y \<le> 15" by simp
    then have "unat ?y \<le> 15" by (simp add: word_le_nat_alt)
    with y assms show False by simp
  qed
qed

(*HELPERS-END*)

subsection \<open>Saving a register pair in the prolog\<close>



subsection \<open>The unwind entry of a stack-pointer adjustment\<close>



subsection \<open>Single-register save and restore\<close>

text \<open>
  C10. The fold thresholds of the single-register primitives are not mirror images.
  \<open>genPrologSaveReg\<close> folds the SP move into a pre-indexed store exactly when
  \<open>spOffset = 0\<close> and \<open>spDelta \<ge> -256\<close>; \<open>genEpilogRestoreReg\<close> folds it into a
  post-indexed load exactly when \<open>spOffset = 0\<close> and \<open>spDelta \<le> 255\<close>. At offset 0 and
  a delta of magnitude 256, which both accept, the prolog save is the one combined
  instruction and the epilog restore is a load followed by a separate SP adjustment.
  (\<open>spDeltaP\<close> is the non-zero delta of the prolog call, \<open>spDeltaE\<close> that of the
  epilog call.)
\<close>

theorem save_restore_reg_fold_thresholds:
  assumes "spOffset \<ge> 0" and "16 dvd spDeltaP" and "spDeltaP < 0"
      and "16 dvd spDeltaE" and "0 < spDeltaE"
  shows "genPrologSaveReg em reg1 spOffset spDeltaP tmpReg p =
           (if spOffset = 0 \<and> spDeltaP \<ge> -256 then
              Some (p, [emitIns_R_R_I INS_str EA_PTRSIZE reg1 REG_SPBASE spDeltaP INS_OPTS_PRE_INDEX,
                        unwindSaveRegPreindexed reg1 spDeltaP])
            else do {
              (p', evs) \<leftarrow> genStackPointerAdjustment em spDeltaP tmpReg p True;
              Some (p', evs @ [emitIns_R_R_I INS_str EA_PTRSIZE reg1 REG_SPBASE spOffset INS_OPTS_NONE,
                               unwindSaveReg reg1 spOffset])
            })
       \<and> genEpilogRestoreReg em reg1 spOffset spDeltaE tmpReg p =
           (if spOffset = 0 \<and> spDeltaE \<le> 255 then
              Some (p, [emitIns_R_R_I INS_ldr EA_PTRSIZE reg1 REG_SPBASE spDeltaE INS_OPTS_POST_INDEX,
                        unwindSaveRegPreindexed reg1 (- spDeltaE)])
            else do {
              (p', evs) \<leftarrow> genStackPointerAdjustment em spDeltaE tmpReg p True;
              Some (p', [emitIns_R_R_I INS_ldr EA_PTRSIZE reg1 REG_SPBASE spOffset INS_OPTS_NONE,
                         unwindSaveReg reg1 spOffset] @ evs)
            })
       \<and> (\<forall>p' evs. genPrologSaveReg em reg1 spOffset spDeltaP tmpReg p = Some (p', evs) \<longrightarrow>
             (length (filter isInstruction evs) = 1) = (spOffset = 0 \<and> spDeltaP \<ge> -256))
       \<and> (\<forall>p' evs. genEpilogRestoreReg em reg1 spOffset spDeltaE tmpReg p = Some (p', evs) \<longrightarrow>
             (length (filter isInstruction evs) = 1) = (spOffset = 0 \<and> spDeltaE \<le> 255))
       \<and> genPrologSaveReg em reg1 0 (-256) tmpReg p =
             Some (p, [emitIns_R_R_I INS_str EA_PTRSIZE reg1 REG_SPBASE (-256) INS_OPTS_PRE_INDEX,
                       unwindSaveRegPreindexed reg1 (-256)])
       \<and> genEpilogRestoreReg em reg1 0 256 tmpReg p =
             do {
               (p', evs) \<leftarrow> genStackPointerAdjustment em 256 tmpReg p True;
               Some (p', [emitIns_R_R_I INS_ldr EA_PTRSIZE reg1 REG_SPBASE 0 INS_OPTS_NONE,
                          unwindSaveReg reg1 0] @ evs)
             }"
proof -
  have pro: "genPrologSaveReg em reg1 spOffset spDeltaP tmpReg p =
           (if spOffset = 0 \<and> spDeltaP \<ge> -256 then
              Some (p, [emitIns_R_R_I INS_str EA_PTRSIZE reg1 REG_SPBASE spDeltaP INS_OPTS_PRE_INDEX,
                        unwindSaveRegPreindexed reg1 spDeltaP])
            else do {
              (p', evs) \<leftarrow> genStackPointerAdjustment em spDeltaP tmpReg p True;
              Some (p', evs @ [emitIns_R_R_I INS_str EA_PTRSIZE reg1 REG_SPBASE spOffset INS_OPTS_NONE,
                               unwindSaveReg reg1 spOffset])
            })"
    using assms by (auto simp: genPrologSaveReg_def Let_def split: bind_splits prod.splits)
  have epi: "genEpilogRestoreReg em reg1 spOffset spDeltaE tmpReg p =
           (if spOffset = 0 \<and> spDeltaE \<le> 255 then
              Some (p, [emitIns_R_R_I INS_ldr EA_PTRSIZE reg1 REG_SPBASE spDeltaE INS_OPTS_POST_INDEX,
                        unwindSaveRegPreindexed reg1 (- spDeltaE)])
            else do {
              (p', evs) \<leftarrow> genStackPointerAdjustment em spDeltaE tmpReg p True;
              Some (p', [emitIns_R_R_I INS_ldr EA_PTRSIZE reg1 REG_SPBASE spOffset INS_OPTS_NONE,
                         unwindSaveReg reg1 spOffset] @ evs)
            })"
    using assms by (auto simp: genEpilogRestoreReg_def Let_def split: bind_splits prod.splits)
  have proi: "(length (filter isInstruction evs) = 1) = (spOffset = 0 \<and> spDeltaP \<ge> -256)"
    if "genPrologSaveReg em reg1 spOffset spDeltaP tmpReg p = Some (p', evs)" for p' evs
    using that unfolding pro
    by (auto split: if_splits bind_splits prod.splits dest!: gSPA_instr_nonempty)
  have epii: "(length (filter isInstruction evs) = 1) = (spOffset = 0 \<and> spDeltaE \<le> 255)"
    if "genEpilogRestoreReg em reg1 spOffset spDeltaE tmpReg p = Some (p', evs)" for p' evs
    using that unfolding epi
    by (auto split: if_splits bind_splits prod.splits dest!: gSPA_instr_nonempty)
  have p256: "genPrologSaveReg em reg1 0 (-256) tmpReg p =
             Some (p, [emitIns_R_R_I INS_str EA_PTRSIZE reg1 REG_SPBASE (-256) INS_OPTS_PRE_INDEX,
                       unwindSaveRegPreindexed reg1 (-256)])"
    by (simp add: genPrologSaveReg_def)
  have e256: "genEpilogRestoreReg em reg1 0 256 tmpReg p =
             do {
               (p', evs) \<leftarrow> genStackPointerAdjustment em 256 tmpReg p True;
               Some (p', [emitIns_R_R_I INS_ldr EA_PTRSIZE reg1 REG_SPBASE 0 INS_OPTS_NONE,
                          unwindSaveReg reg1 0] @ evs)
             }"
    by (simp add: genEpilogRestoreReg_def)
  show ?thesis using pro epi proi epii p256 e256 by blast
qed

text \<open>Offset 0, magnitude 256, on the concrete emitter.\<close>

theorem save_restore_reg_fold_thresholds_witness:
  "genPrologSaveReg arm64_emitter REG_R19 0 (-256) REG_IP0 None =
     Some (None, [emitIns_R_R_I INS_str EA_PTRSIZE REG_R19 REG_SPBASE (-256) INS_OPTS_PRE_INDEX,
                  unwindSaveRegPreindexed REG_R19 (-256)])
   \<and> genEpilogRestoreReg arm64_emitter REG_R19 0 256 REG_IP0 None =
     Some (None, [emitIns_R_R_I INS_ldr EA_PTRSIZE REG_R19 REG_SPBASE 0 INS_OPTS_NONE,
                  unwindSaveReg REG_R19 0,
                  emitIns_R_R_I INS_add EA_PTRSIZE REG_SPBASE REG_SPBASE 256 INS_OPTS_NONE,
                  unwindAllocStack 256])"
  using save_restore_reg_fold_thresholds [of 0 "-256" 256 arm64_emitter REG_R19 REG_IP0 None]
  by (simp add: gSPA_arm64_256)

subsection \<open>The value returned by \<open>genInstrWithConstant\<close>\<close>

text \<open>
  C2. The claim is that the returned flag is true exactly when the fallback through the
  temporary register was taken. The code returns \<open>immFitsInIns\<close>: true when the
  immediate was encoded directly, false when the temporary was used. With an immediate
  of 16 the call emits the single instruction and returns true; with 4097 it goes
  through the temporary and returns false. \<open>genStackPointerAdjustment\<close>, which reads
  the result as "the temporary was used", then clears the caller's flag when the
  temporary was left alone and keeps it when the temporary was overwritten.
\<close>

theorem genInstrWithConstant_returns_immFitsInIns:
  "genInstrWithConstant arm64_emitter INS_add EA_PTRSIZE REG_SPBASE REG_SPBASE (-16) REG_R9 True =
     Some (True, [emitIns_R_R_I INS_sub EA_PTRSIZE REG_SPBASE REG_SPBASE 16 INS_OPTS_NONE])
   \<and> genInstrWithConstant arm64_emitter INS_add EA_PTRSIZE REG_SPBASE REG_SPBASE (-4097) REG_R9 True =
     Some (False, [emitIns_R_I INS_mov EA_8BYTE REG_R9 4097, verifyRegUsed REG_R9,
                   verifyRegUsed REG_R9, unwindPadding,
                   emitIns_R_R_R INS_sub EA_PTRSIZE REG_SPBASE REG_SPBASE REG_R9])
   \<and> genStackPointerAdjustment arm64_emitter (-16) REG_R9 (Some True) False =
     Some (Some False, [emitIns_R_R_I INS_sub EA_PTRSIZE REG_SPBASE REG_SPBASE 16 INS_OPTS_NONE])
   \<and> genStackPointerAdjustment arm64_emitter (-4097) REG_R9 (Some True) False =
     Some (Some True, [emitIns_R_I INS_mov EA_8BYTE REG_R9 4097, verifyRegUsed REG_R9,
                   verifyRegUsed REG_R9, unwindPadding,
                   emitIns_R_R_R INS_sub EA_PTRSIZE REG_SPBASE REG_SPBASE REG_R9])"
  by (simp add: genStackPointerAdjustment_def genInstrWithConstant_def
      genInstrWithConstant_switch_def instGen_Set_Reg_To_Imm_def reg_defs ea_defs arm64_defs
      arm64_valid_imm_for_mov_def canEncodeHalfwordImm_def upt_rec Let_def)

subsection \<open>The number of instructions that materialize a constant\<close>




end
